theory Spec2Isabelle
  imports Main
begin

section \<open>Python values, classes and exceptions\<close>

text \<open>
  The module \<^verbatim>\<open>psychopy/hardware/base.py\<close> defines the response class
  \<^verbatim>\<open>BaseResponse\<close> and the device classes \<^verbatim>\<open>BaseDevice\<close> and
  \<^verbatim>\<open>BaseResponseDevice\<close>. Every \<^verbatim>\<open>raise\<close> and every failing \<^verbatim>\<open>assert\<close> of
  the module is a value of \<open>exn\<close>; \<open>Raised kind text\<close> stands for an exception raised by
  code outside the module (a listener, an overriding method). Assertions are taken to be
  enabled, as they are unless the interpreter runs with \<^verbatim>\<open>-O\<close>.
\<close>

datatype exn =
    AssertionError string
  | NotImplementedError string
  | AttributeError string
  | TypeError string
  | Raised string string

text \<open>
  A user-defined class: its \<^verbatim>\<open>__name__\<close>, the value its attribute \<^verbatim>\<open>fields\<close> resolves
  to, and its base class (\<open>None\<close> when the class derives from \<^verbatim>\<open>object\<close> only). Single
  inheritance is all the module uses.
\<close>

datatype pyclass = PyClass (cname: string) (cfields: "string list") (cbase: "pyclass option")

fun mro :: "pyclass \<Rightarrow> pyclass list" where
  "mro (PyClass n fs b) = PyClass n fs b # (case b of None \<Rightarrow> [] | Some p \<Rightarrow> mro p)"

text \<open>
  The values a field or a message can hold: \<^verbatim>\<open>None\<close>, booleans, integers, strings (code
  points below 256), bytes, lists, tuples, dictionaries in insertion order, and instances
  of user-defined classes with their instance dictionary. Floating-point numbers are left
  out of the value model.
\<close>

datatype pyval =
    PNone
  | PBool bool
  | PInt int
  | PStr string
  | PBytes string
  | PList "pyval list"
  | PTuple "pyval list"
  | PDict "(pyval \<times> pyval) list"
  | PObj pyclass "(string \<times> pyval) list"

text \<open>\<^verbatim>\<open>type(v).__name__\<close>\<close>

fun type_name :: "pyval \<Rightarrow> string" where
  "type_name PNone = ''NoneType''"
| "type_name (PBool b) = ''bool''"
| "type_name (PInt i) = ''int''"
| "type_name (PStr s) = ''str''"
| "type_name (PBytes s) = ''bytes''"
| "type_name (PList xs) = ''list''"
| "type_name (PTuple xs) = ''tuple''"
| "type_name (PDict kvs) = ''dict''"
| "type_name (PObj c a) = cname c"

text \<open>
  \<^verbatim>\<open>isinstance(v, C)\<close> for a user-defined class \<open>C\<close>: the class of \<open>v\<close> has \<open>C\<close> in its
  method resolution order. A value of a built-in type is an instance of no user-defined
  class.
\<close>

fun isinstance :: "pyval \<Rightarrow> pyclass \<Rightarrow> bool" where
  "isinstance (PObj c a) C = (C \<in> set (mro c))"
| "isinstance v C = False"

definition sq :: "string \<Rightarrow> string" where
  "sq s = [CHR 0x27] @ s @ [CHR 0x27]"



section \<open>\<^verbatim>\<open>json.dumps\<close> with its default arguments\<close>

definition hexdigit :: "nat \<Rightarrow> char" where
  "hexdigit d = (if d < 16 then ''0123456789abcdef'' ! d else CHR ''?'')"

text \<open>\<^verbatim>\<open>str(n)\<close> for an integer: its decimal digits, after a minus sign when negative.\<close>

fun str_nat :: "nat \<Rightarrow> string" where
  "str_nat n =
     (if n < 10 then [hexdigit n]
      else str_nat (n div 10) @ [hexdigit (n mod 10)])"









section \<open>\<^verbatim>\<open>BaseResponse\<close>\<close>

definition BaseResponse :: pyclass where
  "BaseResponse = PyClass ''BaseResponse'' [''t'', ''value''] None"

text \<open>
  Binding of keyword arguments to the parameters of a function, after the positional
  arguments have been bound.
\<close>

fun bind_kw :: "string list \<Rightarrow> (string \<times> pyval) list \<Rightarrow> (string \<times> pyval) list
    \<Rightarrow> exn + (string \<times> pyval) list" where
  "bind_kw params bound [] = Inr bound"
| "bind_kw params bound ((k, v) # kws) =
     (if k \<notin> set params
        then Inl (TypeError (''BaseResponse.__init__() got an unexpected keyword argument '' @ sq k))
      else if k \<in> fst ` set bound
        then Inl (TypeError (''BaseResponse.__init__() got multiple values for argument '' @ sq k))
      else bind_kw params (bound @ [(k, v)]) kws)"

text \<open>
  \<^verbatim>\<open>BaseResponse.__init__(self, t, value)\<close>: the instance dictionary it leaves, or the
  \<^verbatim>\<open>TypeError\<close> of the call when the arguments do not fit the two parameters.
\<close>

definition BaseResponse_init :: "pyval list \<Rightarrow> (string \<times> pyval) list
    \<Rightarrow> exn + (string \<times> pyval) list" where
  "BaseResponse_init args kwargs =
     (case bind_kw [''t'', ''value''] (zip [''t'', ''value''] args) kwargs of
        Inl e \<Rightarrow> Inl e
      | Inr bound \<Rightarrow>
          if 2 < length args
            then Inl (TypeError (''BaseResponse.__init__() takes 3 positional arguments but ''
                        @ str_nat (Suc (length args)) @ '' were given''))
          else (case (map_of bound ''t'', map_of bound ''value'') of
                  (Some t, Some v) \<Rightarrow> Inr [(''t'', t), (''value'', v)]
                | (None, Some v) \<Rightarrow>
                    Inl (TypeError (''BaseResponse.__init__() missing 1 required positional argument: ''
                           @ sq ''t''))
                | (Some t, None) \<Rightarrow>
                    Inl (TypeError (''BaseResponse.__init__() missing 1 required positional argument: ''
                           @ sq ''value''))
                | (None, None) \<Rightarrow>
                    Inl (TypeError (''BaseResponse.__init__() missing 2 required positional arguments: ''
                           @ sq ''t'' @ '' and '' @ sq ''value''))))"




section \<open>Listeners and the outside world\<close>

text \<open>
  A listener, a loop and an overriding method are code outside the module. What they do
  is a function on a state \<open>'w\<close> of the outside world, returning the exception they raise
  (if any) and the world they leave. They are taken to return. A listener and a loop are
  taken to leave the device's own attributes alone; an overriding method of the device
  may change them.

  What \<^verbatim>\<open>addListener\<close> is given, and so what the list \<^verbatim>\<open>listeners\<close> holds, is either a
  string or an object: the name of its class, whether that class derives from
  \<^verbatim>\<open>psychopy.hardware.listener.BaseListener\<close>, and its methods \<^verbatim>\<open>receiveMessage\<close>,
  \<^verbatim>\<open>startLoop\<close> and \<^verbatim>\<open>loop.removeDevice\<close>, each \<open>None\<close> when the object has no such
  attribute. An object compares unequal to every string.
\<close>

datatype 'w pyref =
    Str string
  | Obj string bool
        "(pyval \<Rightarrow> 'w \<Rightarrow> exn option \<times> 'w) option"
        "('w \<Rightarrow> exn option \<times> 'w) option"
        "('w \<Rightarrow> exn option \<times> 'w) option"

text \<open>\<^verbatim>\<open>type(lsnr).__name__\<close>\<close>

fun ref_type_name :: "'w pyref \<Rightarrow> string" where
  "ref_type_name (Str s) = ''str''"
| "ref_type_name (Obj n b r st rm) = n"

text \<open>\<^verbatim>\<open>isinstance(listener, lsnr.BaseListener)\<close>\<close>

fun isBaseListener :: "'w pyref \<Rightarrow> bool" where
  "isBaseListener (Str s) = False"
| "isBaseListener (Obj n b r st rm) = b"

text \<open>\<^verbatim>\<open>listener == "tag"\<close>\<close>

fun eq_str :: "'w pyref \<Rightarrow> string \<Rightarrow> bool" where
  "eq_str (Str s) tag = (s = tag)"
| "eq_str (Obj n b r st rm) tag = False"

definition no_attribute :: "string \<Rightarrow> string \<Rightarrow> exn" where
  "no_attribute tn attr = AttributeError (sq tn @ '' object has no attribute '' @ sq attr)"

text \<open>\<^verbatim>\<open>listener.receiveMessage(message)\<close>\<close>

fun call_receiveMessage :: "'w pyref \<Rightarrow> pyval \<Rightarrow> 'w \<Rightarrow> exn option \<times> 'w" where
  "call_receiveMessage (Obj n b (Some f) st rm) m w = f m w"
| "call_receiveMessage l m w = (Some (no_attribute (ref_type_name l) ''receiveMessage''), w)"

text \<open>\<^verbatim>\<open>listener.startLoop(self)\<close>\<close>

fun call_startLoop :: "'w pyref \<Rightarrow> 'w \<Rightarrow> exn option \<times> 'w" where
  "call_startLoop (Obj n b r (Some f) rm) w = f w"
| "call_startLoop l w = (Some (no_attribute (ref_type_name l) ''startLoop''), w)"

text \<open>\<^verbatim>\<open>listener.loop.removeDevice(listener)\<close>\<close>

fun call_removeDevice :: "'w pyref \<Rightarrow> 'w \<Rightarrow> exn option \<times> 'w" where
  "call_removeDevice (Obj n b r st (Some f)) w = f w"
| "call_removeDevice l w = (Some (no_attribute (ref_type_name l) ''loop''), w)"

text \<open>
  The calls a method of the device makes to code outside it, in the order it makes them.
\<close>

datatype 'w event =
    EvReceiveMessage "'w pyref" pyval
  | EvDispatchMessages
  | EvStartLoop "'w pyref"
  | EvRemoveDevice "'w pyref"

section \<open>\<^verbatim>\<open>BaseDevice\<close> and \<^verbatim>\<open>BaseResponseDevice\<close>\<close>

text \<open>
  The attributes \<^verbatim>\<open>__init__\<close> gives an instance, with the world its collaborators act on.
\<close>

record 'w device =
  listeners :: "'w pyref list"
  responses :: "pyval list"
  world :: 'w

text \<open>
  What a subclass of \<^verbatim>\<open>BaseResponseDevice\<close> declares: its name, its \<^verbatim>\<open>responseClass\<close>
  with the \<^verbatim>\<open>__init__\<close> of that class, and the methods it overrides (\<open>None\<close> where it
  inherits the method of this module).
\<close>

record 'w devtype =
  tname :: string
  responseClass :: pyclass
  responseInit :: "pyval list \<Rightarrow> (string \<times> pyval) list \<Rightarrow> exn + (string \<times> pyval) list"
  ov_getAvailableDevices :: "(exn + pyval) option"
  ov_parseMessage :: "(pyval \<Rightarrow> 'w device \<Rightarrow> (exn + pyval) \<times> 'w device) option"
  ov_dispatchMessages :: "('w device \<Rightarrow> exn option \<times> 'w device) option"

definition BaseResponseDevice :: "'w devtype" where
  "BaseResponseDevice =
     \<lparr>tname = ''BaseResponseDevice'', responseClass = BaseResponse,
      responseInit = BaseResponse_init, ov_getAvailableDevices = None,
      ov_parseMessage = None, ov_dispatchMessages = None\<rparr>"


definition getAvailableDevices :: "exn + pyval" where
  "getAvailableDevices =
     Inl (NotImplementedError
       ''All subclasses of BaseDevice must implement the method `getAvailableDevices`'')"

definition call_getAvailableDevices :: "'w devtype \<Rightarrow> exn + pyval" where
  "call_getAvailableDevices T =
     (case ov_getAvailableDevices T of None \<Rightarrow> getAvailableDevices | Some r \<Rightarrow> r)"

definition dispatchMessages :: "'w device \<Rightarrow> exn option \<times> 'w device" where
  "dispatchMessages d = (None, d)"

definition call_dispatchMessages :: "'w devtype \<Rightarrow> 'w device \<Rightarrow> exn option \<times> 'w device" where
  "call_dispatchMessages T d =
     (case ov_dispatchMessages T of None \<Rightarrow> dispatchMessages d | Some f \<Rightarrow> f d)"

definition parseMessage :: "pyval \<Rightarrow> 'w device \<Rightarrow> (exn + pyval) \<times> 'w device" where
  "parseMessage message d =
     (Inl (NotImplementedError
        ''All subclasses of BaseDevice must implement the method `parseMessage`''), d)"

definition call_parseMessage :: "'w devtype \<Rightarrow> pyval \<Rightarrow> 'w device \<Rightarrow> (exn + pyval) \<times> 'w device" where
  "call_parseMessage T message d =
     (case ov_parseMessage T of None \<Rightarrow> parseMessage message d | Some f \<Rightarrow> f message d)"

text \<open>
  The loop of \<^verbatim>\<open>receiveMessage\<close> over \<^verbatim>\<open>self.listeners\<close>: it stops at the first listener
  that raises.
\<close>

fun relay :: "'w pyref list \<Rightarrow> pyval \<Rightarrow> 'w \<Rightarrow> exn option \<times> 'w \<times> 'w event list" where
  "relay [] m w = (None, w, [])"
| "relay (l # ls) m w =
     (case call_receiveMessage l m w of
        (Some e, w') \<Rightarrow> (Some e, w', [EvReceiveMessage l m])
      | (None, w') \<Rightarrow>
          (case relay ls m w' of (r, w'', evs) \<Rightarrow> (r, w'', EvReceiveMessage l m # evs)))"

definition mismatch_text :: "string \<Rightarrow> string \<Rightarrow> string \<Rightarrow> string" where
  "mismatch_text ownType targetType msgType =
     ownType @ ''.receiveMessage() can only receive messages of type '' @ targetType
       @ '', instead received '' @ msgType
       @ ''. Try parsing the message first using '' @ ownType @ ''.parseMessage()''"

text \<open>
  Every method returns its result (the exception it raises, or its value), the device it
  leaves, and the calls it made.
\<close>

definition receiveMessage :: "'w devtype \<Rightarrow> pyval \<Rightarrow> 'w device
    \<Rightarrow> (exn + bool) \<times> 'w device \<times> 'w event list" where
  "receiveMessage T message d =
     (if \<not> isinstance message (responseClass T)
        then (Inl (AssertionError
                (mismatch_text (tname T) (cname (responseClass T)) (type_name message))), d, [])
      else
        (let d1 = d\<lparr>responses := responses d @ [message]\<rparr> in
         case relay (listeners d1) message (world d1) of
           (Some e, w, evs) \<Rightarrow> (Inl e, d1\<lparr>world := w\<rparr>, evs)
         | (None, w, evs) \<Rightarrow> (Inr True, d1\<lparr>world := w\<rparr>, evs)))"

text \<open>\<^verbatim>\<open>self.responseClass(*args, **kwargs)\<close>\<close>

definition new_response :: "'w devtype \<Rightarrow> pyval list \<Rightarrow> (string \<times> pyval) list \<Rightarrow> exn + pyval" where
  "new_response T args kwargs =
     (case responseInit T args kwargs of
        Inl e \<Rightarrow> Inl e
      | Inr attrs \<Rightarrow> Inr (PObj (responseClass T) attrs))"

definition makeResponse :: "'w devtype \<Rightarrow> pyval list \<Rightarrow> (string \<times> pyval) list \<Rightarrow> 'w device
    \<Rightarrow> (exn + pyval) \<times> 'w device \<times> 'w event list" where
  "makeResponse T args kwargs d =
     (case new_response T args kwargs of
        Inl e \<Rightarrow> (Inl e, d, [])
      | Inr resp \<Rightarrow>
          (case receiveMessage T resp d of
             (Inl e, d', evs) \<Rightarrow> (Inl e, d', evs)
           | (Inr ok, d', evs) \<Rightarrow> (Inr resp, d', evs)))"

definition clearResponses :: "'w devtype \<Rightarrow> 'w device
    \<Rightarrow> (exn + bool) \<times> 'w device \<times> 'w event list" where
  "clearResponses T d =
     (case call_dispatchMessages T d of
        (r, d') \<Rightarrow> (Inr True, d'\<lparr>responses := []\<rparr>, [EvDispatchMessages]))"

definition getListenerNames :: "'w device \<Rightarrow> string list" where
  "getListenerNames d = map ref_type_name (listeners d)"

text \<open>
  What \<^verbatim>\<open>addListener\<close> takes from \<^verbatim>\<open>psychopy.hardware\<close>: the attribute
  \<^verbatim>\<open>DeviceManager.liaison\<close> and the three listener classes it instantiates.
\<close>

record 'w hardware =
  liaison :: pyval
  LiaisonListener :: "pyval \<Rightarrow> 'w pyref"
  PrintListener :: "'w pyref"
  LoggingListener :: "'w pyref"

text \<open>The three \<^verbatim>\<open>if\<close> statements under \<^verbatim>\<open>if not isinstance(listener, lsnr.BaseListener)\<close>.\<close>

definition make_listener :: "'w hardware \<Rightarrow> 'w pyref \<Rightarrow> exn + 'w pyref" where
  "make_listener hw listener =
     (case (if eq_str listener ''liaison''
              then (if liaison hw = PNone
                      then Inl (AttributeError
                        ''Cannot create a `liaison` listener as no liaison server is connected to DeviceManager.'')
                    else Inr (LiaisonListener hw (liaison hw)))
            else Inr listener) of
        Inl e \<Rightarrow> Inl e
      | Inr l1 \<Rightarrow>
          (let l2 = (if eq_str l1 ''print'' then PrintListener hw else l1);
               l3 = (if eq_str l2 ''log'' then LoggingListener hw else l2)
           in Inr l3))"

definition addListener :: "'w hardware \<Rightarrow> 'w pyref \<Rightarrow> bool \<Rightarrow> 'w device
    \<Rightarrow> (exn + 'w pyref) \<times> 'w device \<times> 'w event list" where
  "addListener hw listener startLoop d =
     (case (if \<not> isBaseListener listener then make_listener hw listener else Inr listener) of
        Inl e \<Rightarrow> (Inl e, d, [])
      | Inr l \<Rightarrow>
          (let d1 = d\<lparr>listeners := listeners d @ [l]\<rparr> in
           if startLoop
             then (case call_startLoop l (world d1) of
                     (Some e, w) \<Rightarrow> (Inl e, d1\<lparr>world := w\<rparr>, [EvStartLoop l])
                   | (None, w) \<Rightarrow> (Inr l, d1\<lparr>world := w\<rparr>, [EvStartLoop l]))
           else (Inr l, d1, [])))"

text \<open>The loop of \<^verbatim>\<open>clearListeners\<close>; it stops at the first call that raises.\<close>

fun remove_all :: "'w pyref list \<Rightarrow> 'w \<Rightarrow> exn option \<times> 'w \<times> 'w event list" where
  "remove_all [] w = (None, w, [])"
| "remove_all (l # ls) w =
     (case call_removeDevice l w of
        (Some e, w') \<Rightarrow> (Some e, w', [EvRemoveDevice l])
      | (None, w') \<Rightarrow>
          (case remove_all ls w' of (r, w'', evs) \<Rightarrow> (r, w'', EvRemoveDevice l # evs)))"

definition clearListeners :: "'w device \<Rightarrow> (exn + bool) \<times> 'w device \<times> 'w event list" where
  "clearListeners d =
     (case remove_all (listeners d) (world d) of
        (Some e, w, evs) \<Rightarrow> (Inl e, d\<lparr>world := w\<rparr>, evs)
      | (None, w, evs) \<Rightarrow> (Inr True, d\<lparr>listeners := [], world := w\<rparr>, evs))"

section \<open>Reading the outcome of a method\<close>

abbreviation outcome :: "'r \<times> 'w device \<times> 'w event list \<Rightarrow> 'r" where
  "outcome x \<equiv> fst x"

abbreviation after :: "'r \<times> 'w device \<times> 'w event list \<Rightarrow> 'w device" where
  "after x \<equiv> fst (snd x)"

abbreviation calls :: "'r \<times> 'w device \<times> 'w event list \<Rightarrow> 'w event list" where
  "calls x \<equiv> snd (snd x)"


text \<open>The invariant of the response log: every element is an instance of \<^verbatim>\<open>responseClass\<close>.\<close>

definition responses_typed :: "'w devtype \<Rightarrow> 'w device \<Rightarrow> bool" where
  "responses_typed T d = list_all (\<lambda>m. isinstance m (responseClass T)) (responses d)"


section \<open>Example devices and listeners\<close>

text \<open>
  The examples run in a world that is a console: the list of the lines printed so far.

  Modelled from the spec: the listener classes live in \<^verbatim>\<open>psychopy/hardware/listener.py\<close>,
  which is not part of the module. A print listener has the class name
  \<^verbatim>\<open>PrintListener\<close> and prints what it receives; a logging listener is its silent
  sibling; a liaison listener relays to the connection it was made with.
\<close>

definition ex_print :: "string list pyref" where
  "ex_print = Obj ''PrintListener'' True
     (Some (\<lambda>m w. (None, w @ [''print '' @ type_name m])))
     (Some (\<lambda>w. (None, w @ [''print loop started''])))
     (Some (\<lambda>w. (None, w)))"

definition ex_log :: "string list pyref" where
  "ex_log = Obj ''LoggingListener'' True
     (Some (\<lambda>m w. (None, w @ [''log '' @ type_name m])))
     (Some (\<lambda>w. (None, w)))
     (Some (\<lambda>w. (None, w)))"

definition ex_liaison :: "pyval \<Rightarrow> string list pyref" where
  "ex_liaison server = Obj ''LiaisonListener'' True
     (Some (\<lambda>m w. (None, w @ [''relay '' @ type_name m])))
     (Some (\<lambda>w. (None, w)))
     (Some (\<lambda>w. (None, w)))"

text \<open>A listener whose \<^verbatim>\<open>receiveMessage\<close> raises after it has printed a line.\<close>

definition ex_broken :: "string list pyref" where
  "ex_broken = Obj ''BrokenListener'' True
     (Some (\<lambda>m w. (Some (Raised ''RuntimeError'' ''listener failed''), w @ [''broken''])))
     (Some (\<lambda>w. (None, w)))
     (Some (\<lambda>w. (None, w)))"

text \<open>\<^verbatim>\<open>psychopy.hardware\<close> with no liaison server connected.\<close>

definition ex_hardware :: "string list hardware" where
  "ex_hardware =
     \<lparr>liaison = PNone, LiaisonListener = ex_liaison,
      PrintListener = ex_print, LoggingListener = ex_log\<rparr>"

text \<open>\<^verbatim>\<open>BaseResponse(1, "a")\<close> and \<^verbatim>\<open>BaseResponse(2, "b")\<close>\<close>

definition ex_resp_a :: pyval where
  "ex_resp_a = PObj BaseResponse [(''t'', PInt 1), (''value'', PStr ''a'')]"

definition ex_resp_b :: pyval where
  "ex_resp_b = PObj BaseResponse [(''t'', PInt 2), (''value'', PStr ''b'')]"

text \<open>A device that holds one response and has a print and a logging listener.\<close>

definition ex_device :: "string list device" where
  "ex_device = \<lparr>listeners = [ex_print, ex_log], responses = [ex_resp_a], world = []\<rparr>"

text \<open>
  A subclass whose \<^verbatim>\<open>dispatchMessages\<close> stores one response and then raises.
\<close>

definition ex_failing_drain :: "string list devtype" where
  "ex_failing_drain =
     \<lparr>tname = ''SerialDevice'', responseClass = BaseResponse,
      responseInit = BaseResponse_init, ov_getAvailableDevices = None,
      ov_parseMessage = None,
      ov_dispatchMessages =
        Some (\<lambda>d. (Some (Raised ''OSError'' ''port closed''),
                    d\<lparr>responses := responses d @ [ex_resp_b]\<rparr>))\<rparr>"

text \<open>A device whose second listener is the broken one.\<close>

definition ex_device_broken :: "string list device" where
  "ex_device_broken = \<lparr>listeners = [ex_print, ex_broken, ex_log], responses = [], world = []\<rparr>"

text \<open>\<^verbatim>\<open>BaseResponse(1, b"k")\<close>\<close>

definition ex_resp_bytes :: pyval where
  "ex_resp_bytes = PObj BaseResponse [(''t'', PInt 1), (''value'', PBytes ''k'')]"

section \<open>Rejection of a message of the wrong type\<close>

text \<open>
  Claim C1. For every device and every message that is not an instance of the device's
  \<^verbatim>\<open>responseClass\<close>, \<^verbatim>\<open>receiveMessage\<close> fails with the assertion error whose text
  names the type of the device, the expected class and the type of the message; the
  device is left as it was (so \<^verbatim>\<open>responses\<close> is unchanged) and no listener is called.
\<close>

theorem receiveMessage_wrong_type:
  "\<not> isinstance message (responseClass T) \<Longrightarrow>
   receiveMessage T message d =
     (Inl (AssertionError
        (tname T @ ''.receiveMessage() can only receive messages of type ''
           @ cname (responseClass T) @ '', instead received '' @ type_name message
           @ ''. Try parsing the message first using '' @ tname T @ ''.parseMessage()'')),
      d, [])"
  by (simp add: receiveMessage_def mismatch_text_def)

theorem receiveMessage_wrong_type_witness:
  "\<not> isinstance (PStr ''raw'') (responseClass (BaseResponseDevice :: string list devtype)) \<and>
   receiveMessage BaseResponseDevice (PStr ''raw'') ex_device =
     (Inl (AssertionError
        (''BaseResponseDevice.receiveMessage() can only receive messages of type BaseResponse, ''
           @ ''instead received str. Try parsing the message first using ''
           @ ''BaseResponseDevice.parseMessage()'')),
      ex_device, [])"
  using receiveMessage_wrong_type [of "PStr ''raw''" "BaseResponseDevice :: string list devtype" ex_device]
  by (simp add: BaseResponseDevice_def BaseResponse_def)

section \<open>Clearing the responses\<close>

text \<open>
  Claim C3. For every device in every state, \<^verbatim>\<open>clearResponses\<close> calls
  \<^verbatim>\<open>dispatchMessages\<close> exactly once and nothing else, discards whatever that call raised,
  leaves the device as the call left it but with \<^verbatim>\<open>responses\<close> empty, and returns
  \<^verbatim>\<open>True\<close>.
\<close>

theorem clearResponses_always_clears:
  "outcome (clearResponses T d) = Inr True \<and>
   calls (clearResponses T d) = [EvDispatchMessages] \<and>
   after (clearResponses T d) = (snd (call_dispatchMessages T d))\<lparr>responses := []\<rparr> \<and>
   responses (after (clearResponses T d)) = []"
  by (simp add: clearResponses_def split: prod.split)

theorem clearResponses_always_clears_witness:
  "fst (call_dispatchMessages ex_failing_drain ex_device) = Some (Raised ''OSError'' ''port closed'') \<and>
   outcome (clearResponses ex_failing_drain ex_device) = Inr True \<and>
   calls (clearResponses ex_failing_drain ex_device) = [EvDispatchMessages] \<and>
   responses (after (clearResponses ex_failing_drain ex_device)) = []"
  using clearResponses_always_clears [of ex_failing_drain ex_device]
  by (simp add: call_dispatchMessages_def ex_failing_drain_def)

section \<open>A liaison listener without a liaison server\<close>

text \<open>
  Claim C4. For every device, \<^verbatim>\<open>addListener("liaison", startLoop)\<close> fails with the
  attribute error of the module when \<^verbatim>\<open>DeviceManager.liaison\<close> is \<^verbatim>\<open>None\<close>, and leaves
  the device, so its list of listeners, as it was.
\<close>

theorem addListener_liaison_not_connected:
  "liaison hw = PNone \<Longrightarrow>
   addListener hw (Str ''liaison'') startLoop d =
     (Inl (AttributeError
        ''Cannot create a `liaison` listener as no liaison server is connected to DeviceManager.''),
      d, [])"
  by (simp add: addListener_def make_listener_def)

theorem addListener_liaison_not_connected_witness:
  "liaison ex_hardware = PNone \<and>
   outcome (addListener ex_hardware (Str ''liaison'') True ex_device) =
     Inl (AttributeError
        ''Cannot create a `liaison` listener as no liaison server is connected to DeviceManager.'') \<and>
   listeners (after (addListener ex_hardware (Str ''liaison'') True ex_device)) =
     listeners ex_device"
  using addListener_liaison_not_connected [of ex_hardware True ex_device]
  by (simp add: ex_hardware_def)

section \<open>Methods a subclass has to implement\<close>

text \<open>
  Claim C6. For every device type that overrides neither, \<^verbatim>\<open>getAvailableDevices()\<close>
  called on the type and \<^verbatim>\<open>parseMessage(raw)\<close> called on an instance both fail with
  \<^verbatim>\<open>NotImplementedError\<close>.
\<close>

theorem not_overridden_not_implemented:
  "(ov_getAvailableDevices T = None \<longrightarrow>
      call_getAvailableDevices T =
        Inl (NotImplementedError
          ''All subclasses of BaseDevice must implement the method `getAvailableDevices`'')) \<and>
   (ov_parseMessage T = None \<longrightarrow>
      fst (call_parseMessage T raw d) =
        Inl (NotImplementedError
          ''All subclasses of BaseDevice must implement the method `parseMessage`''))"
  by (simp add: call_getAvailableDevices_def getAvailableDevices_def
        call_parseMessage_def parseMessage_def)

theorem not_overridden_not_implemented_witness:
  "ov_getAvailableDevices (BaseResponseDevice :: string list devtype) = None \<and>
   ov_parseMessage (BaseResponseDevice :: string list devtype) = None \<and>
   call_getAvailableDevices (BaseResponseDevice :: string list devtype) =
     Inl (NotImplementedError
       ''All subclasses of BaseDevice must implement the method `getAvailableDevices`'') \<and>
   fst (call_parseMessage BaseResponseDevice (PBytes ''k'') ex_device) =
     Inl (NotImplementedError
       ''All subclasses of BaseDevice must implement the method `parseMessage`'')"
  using not_overridden_not_implemented
    [of "BaseResponseDevice :: string list devtype" "PBytes ''k''" ex_device]
  by (simp add: BaseResponseDevice_def)

section \<open>Serialisation of a response\<close>













section \<open>Ingestion and fan-out\<close>

lemma relay_all_called:
  "fst (relay ls m w) = None \<Longrightarrow> snd (snd (relay ls m w)) = map (\<lambda>l. EvReceiveMessage l m) ls"
proof (induction ls arbitrary: w)
  case Nil
  then show ?case by simp
next
  case (Cons l ls)
  obtain r w' where c: "call_receiveMessage l m w = (r, w')" by (cases "call_receiveMessage l m w")
  show ?case
  proof (cases r)
    case None
    with Cons.prems c have ok: "fst (relay ls m w') = None"
      by (simp split: prod.splits)
    from Cons.IH[OF ok] None c show ?thesis
      by (auto split: prod.splits)
  next
    case (Some e)
    with Cons.prems c show ?thesis by simp
  qed
qed

lemma relay_append:
  "relay (pre @ rest) m w =
     (case relay pre m w of
        (Some e, w', evs) \<Rightarrow> (Some e, w', evs)
      | (None, w', evs) \<Rightarrow>
          (case relay rest m w' of (r, w'', evs') \<Rightarrow> (r, w'', evs @ evs')))"
proof (induction pre arbitrary: w)
  case Nil
  then show ?case by (simp split: prod.split)
next
  case (Cons l pre)
  show ?case
    by (simp add: Cons split: prod.split option.split)
qed






text \<open>
  Claim C9. In \<^verbatim>\<open>receiveMessage\<close> with a valid message the append comes before the first
  call of a listener and is not undone: when the listeners before the \<open>k\<close>-th return and
  the \<open>k\<close>-th raises, the exception leaves \<^verbatim>\<open>receiveMessage\<close> with the message in
  \<^verbatim>\<open>responses\<close>, the listeners up to the \<open>k\<close>-th called in order, and no later one
  called.
\<close>

theorem receiveMessage_listener_raises:
  assumes "isinstance message (responseClass T)"
    and "listeners d = pre @ l # post"
    and "fst (relay pre message (world d)) = None"
    and "fst (call_receiveMessage l message (fst (snd (relay pre message (world d))))) = Some e"
  shows "receiveMessage T message d =
     (Inl e,
      d\<lparr>responses := responses d @ [message],
        world := snd (call_receiveMessage l message (fst (snd (relay pre message (world d)))))\<rparr>,
      map (\<lambda>x. EvReceiveMessage x message) (pre @ [l]))"
proof -
  obtain w1 evs where p: "relay pre message (world d) = (None, w1, evs)"
    using assms(3) by (cases "relay pre message (world d)") auto
  from relay_all_called[OF assms(3)] p have evs: "evs = map (\<lambda>x. EvReceiveMessage x message) pre"
    by simp
  obtain w2 where l: "call_receiveMessage l message w1 = (Some e, w2)"
    using assms(4) p by (cases "call_receiveMessage l message w1") auto
  have "relay (pre @ l # post) message (world d) = (Some e, w2, evs @ [EvReceiveMessage l message])"
    by (simp add: relay_append p l)
  then show ?thesis
    using assms(1,2) p l evs by (simp add: receiveMessage_def)
qed

theorem receiveMessage_listener_raises_witness:
  "isinstance ex_resp_a (responseClass (BaseResponseDevice :: string list devtype)) \<and>
   listeners ex_device_broken = [ex_print] @ ex_broken # [ex_log] \<and>
   fst (relay [ex_print] ex_resp_a (world ex_device_broken)) = None \<and>
   fst (call_receiveMessage ex_broken ex_resp_a
          (fst (snd (relay [ex_print] ex_resp_a (world ex_device_broken))))) =
     Some (Raised ''RuntimeError'' ''listener failed'') \<and>
   outcome (receiveMessage BaseResponseDevice ex_resp_a ex_device_broken) =
     Inl (Raised ''RuntimeError'' ''listener failed'') \<and>
   responses (after (receiveMessage BaseResponseDevice ex_resp_a ex_device_broken)) = [ex_resp_a] \<and>
   calls (receiveMessage BaseResponseDevice ex_resp_a ex_device_broken) =
     [EvReceiveMessage ex_print ex_resp_a, EvReceiveMessage ex_broken ex_resp_a]"
  using receiveMessage_listener_raises [of ex_resp_a "BaseResponseDevice :: string list devtype"
      ex_device_broken "[ex_print]" ex_broken "[ex_log]" "Raised ''RuntimeError'' ''listener failed''"]
  by (simp add: BaseResponseDevice_def BaseResponse_def ex_resp_a_def
        ex_device_broken_def ex_print_def ex_log_def ex_broken_def)


section \<open>Synthesised responses\<close>






section \<open>The invariant of the response log\<close>

lemma receiveMessage_typed:
  "responses_typed T d \<Longrightarrow> responses_typed T (after (receiveMessage T message d))"
  by (simp add: responses_typed_def receiveMessage_def Let_def split: prod.split option.split)

lemma makeResponse_typed:
  "responses_typed T d \<Longrightarrow> responses_typed T (after (makeResponse T args kwargs d))"
proof (cases "new_response T args kwargs")
  case (Inl e)
  assume "responses_typed T d"
  with Inl show ?thesis by (simp add: makeResponse_def)
next
  case (Inr resp)
  assume t: "responses_typed T d"
  obtain r d' evs where rm: "receiveMessage T resp d = (r, d', evs)"
    by (cases "receiveMessage T resp d")
  from receiveMessage_typed[OF t, of resp] rm have "responses_typed T d'" by simp
  with Inr rm show ?thesis by (cases r) (simp_all add: makeResponse_def)
qed

lemma addListener_responses:
  "responses (after (addListener hw listener startLoop d)) = responses d"
  by (simp add: addListener_def Let_def split: sum.split prod.split option.split)

lemma clearListeners_responses:
  "responses (after (clearListeners d)) = responses d"
  by (simp add: clearListeners_def split: prod.split option.split)

text \<open>
  Claim C8. Every method of the device keeps the invariant that every element of
  \<^verbatim>\<open>responses\<close> is an instance of \<^verbatim>\<open>responseClass\<close>: \<^verbatim>\<open>receiveMessage\<close>,
  \<^verbatim>\<open>makeResponse\<close>, \<^verbatim>\<open>clearResponses\<close>, \<^verbatim>\<open>dispatchMessages\<close>, \<^verbatim>\<open>addListener\<close> and
  \<^verbatim>\<open>clearListeners\<close>, also when they raise. A message of another type is never
  appended.
\<close>

theorem responses_typed_preserved:
  assumes "responses_typed T d"
  shows "responses_typed T (after (receiveMessage T message d)) \<and>
         responses_typed T (after (makeResponse T args kwargs d)) \<and>
         responses_typed T (after (clearResponses T d)) \<and>
         responses_typed T (snd (dispatchMessages d)) \<and>
         responses_typed T (after (addListener hw listener startLoop d)) \<and>
         responses_typed T (after (clearListeners d)) \<and>
         (\<not> isinstance message (responseClass T) \<longrightarrow>
            responses (after (receiveMessage T message d)) = responses d)"
proof -
  have a: "responses_typed T (after (clearResponses T d))"
    by (simp add: responses_typed_def clearResponses_def split: prod.split)
  have b: "responses_typed T (snd (dispatchMessages d))"
    using assms by (simp add: dispatchMessages_def)
  have c: "responses_typed T (after (addListener hw listener startLoop d))"
    using assms by (simp add: responses_typed_def addListener_responses)
  have e: "responses_typed T (after (clearListeners d))"
    using assms by (simp add: responses_typed_def clearListeners_responses)
  have f: "\<not> isinstance message (responseClass T) \<longrightarrow>
            responses (after (receiveMessage T message d)) = responses d"
    by (simp add: receiveMessage_def)
  show ?thesis
    using receiveMessage_typed[OF assms] makeResponse_typed[OF assms] a b c e f by blast
qed

theorem responses_typed_preserved_witness:
  "responses_typed (BaseResponseDevice :: string list devtype) ex_device \<and>
   \<not> isinstance (PStr ''raw'') (responseClass (BaseResponseDevice :: string list devtype)) \<and>
   responses (after (receiveMessage BaseResponseDevice (PStr ''raw'') ex_device)) =
     responses ex_device \<and>
   responses_typed (BaseResponseDevice :: string list devtype)
     (after (makeResponse BaseResponseDevice [PInt 2, PStr ''b''] [] ex_device)) \<and>
   responses_typed (BaseResponseDevice :: string list devtype)
     (after (addListener ex_hardware (Str ''print'') True ex_device))"
  using responses_typed_preserved [of "BaseResponseDevice :: string list devtype" ex_device
      "PStr ''raw''" "[PInt 2, PStr ''b'']" "[]" ex_hardware "Str ''print''" True]
  by (simp add: responses_typed_def BaseResponseDevice_def BaseResponse_def ex_device_def
        ex_resp_a_def)

section \<open>A string that names no listener\<close>

text \<open>
  Claim C10. For every string other than \<^verbatim>\<open>"liaison"\<close>, \<^verbatim>\<open>"print"\<close> and \<^verbatim>\<open>"log"\<close>,
  \<^verbatim>\<open>addListener\<close> raises nothing: it appends the string itself to \<^verbatim>\<open>listeners\<close> and
  returns it. \<^verbatim>\<open>getListenerNames\<close> then reports \<^verbatim>\<open>str\<close> for it, and the fan-out of the
  next valid message calls \<^verbatim>\<open>receiveMessage\<close> on the string, which raises
  \<^verbatim>\<open>AttributeError\<close>.
\<close>

theorem addListener_unrecognised_string:
  assumes "tag \<notin> {''liaison'', ''print'', ''log''}"
  shows "addListener hw (Str tag) False d =
           (Inr (Str tag), d\<lparr>listeners := listeners d @ [Str tag]\<rparr>, []) \<and>
         getListenerNames (after (addListener hw (Str tag) False d)) =
           getListenerNames d @ [''str''] \<and>
         (isinstance message (responseClass T) \<and>
          fst (relay (listeners d) message (world d)) = None \<longrightarrow>
            outcome (receiveMessage T message (after (addListener hw (Str tag) False d))) =
              Inl (AttributeError
                (sq ''str'' @ '' object has no attribute '' @ sq ''receiveMessage'')))"
proof -
  have add: "addListener hw (Str tag) False d =
           (Inr (Str tag), d\<lparr>listeners := listeners d @ [Str tag]\<rparr>, [])"
    using assms by (simp add: addListener_def make_listener_def)
  have names: "getListenerNames (after (addListener hw (Str tag) False d)) =
           getListenerNames d @ [''str'']"
    by (simp add: add getListenerNames_def)
  have fan: "outcome (receiveMessage T message (after (addListener hw (Str tag) False d))) =
              Inl (AttributeError
                (sq ''str'' @ '' object has no attribute '' @ sq ''receiveMessage''))"
    if inst: "isinstance message (responseClass T)"
      and ok: "fst (relay (listeners d) message (world d)) = None"
  proof -
    obtain w' evs where p: "relay (listeners d) message (world d) = (None, w', evs)"
      using ok by (cases "relay (listeners d) message (world d)") auto
    have "relay (listeners d @ [Str tag]) message (world d) =
        (Some (no_attribute ''str'' ''receiveMessage''), w', evs @ [EvReceiveMessage (Str tag) message])"
      by (simp add: relay_append p)
    then show ?thesis using inst by (simp add: add receiveMessage_def no_attribute_def)
  qed
  show ?thesis using add names fan by blast
qed

theorem addListener_unrecognised_string_witness:
  "''keyboard'' \<notin> {''liaison'', ''print'', ''log''} \<and>
   isinstance ex_resp_b (responseClass (BaseResponseDevice :: string list devtype)) \<and>
   fst (relay (listeners ex_device) ex_resp_b (world ex_device)) = None \<and>
   addListener ex_hardware (Str ''keyboard'') False ex_device =
     (Inr (Str ''keyboard''),
      ex_device\<lparr>listeners := [ex_print, ex_log, Str ''keyboard'']\<rparr>, []) \<and>
   getListenerNames (after (addListener ex_hardware (Str ''keyboard'') False ex_device)) =
     [''PrintListener'', ''LoggingListener'', ''str''] \<and>
   outcome (receiveMessage BaseResponseDevice ex_resp_b
              (after (addListener ex_hardware (Str ''keyboard'') False ex_device))) =
     Inl (AttributeError (sq ''str'' @ '' object has no attribute '' @ sq ''receiveMessage''))"
  using addListener_unrecognised_string [of "''keyboard''" ex_hardware ex_device ex_resp_b
      "BaseResponseDevice :: string list devtype"]
  by (simp add: BaseResponseDevice_def BaseResponse_def ex_resp_b_def ex_device_def
        ex_print_def ex_log_def getListenerNames_def addListener_def make_listener_def)

end
